theory Spec2Isabelle
  imports Main
begin

section \<open>Values, exceptions and enumerations\<close>

text \<open>
  Exceptions of the Python code as values. \<open>ValueError\<close>, \<open>AttributeError\<close> and
  \<open>TypeError\<close> are the built-in ones the code raises or provokes itself;
  \<open>OverflowError\<close> is what the conversion of a huge \<open>int\<close> to a float raises;
  \<open>MultipleResultsFound\<close> is what \<open>scalar_one_or_none\<close> raises on more than one row;
  \<open>External\<close> stands for any exception (a subclass of \<open>Exception\<close>) that an external
  collaborator raises: the gateway SDK, the subscription grantor, \<open>json\<close> or \<open>hmac\<close>.
\<close>

datatype exn =
    ValueError string
  | AttributeError string
  | TypeError string
  | OverflowError string
  | MultipleResultsFound
  | External string

text \<open>
  Modelled from the spec: the enumeration \<open>PaymentStatus\<close> that \<open>yookassa_service.py\<close>
  imports from the module \<open>models\<close>, which is not among the sources. The spec (sections
  3 and 4.1) gives four members with the literals \<open>pending\<close>, \<open>waiting_for_capture\<close>,
  \<open>succeeded\<close> and \<open>canceled\<close>; \<open>service.py\<close> (lines 21 to 25) declares
  \<open>class PaymentStatus(str, Enum)\<close> with these members and values, and that
  declaration is the one written here.
\<close>

datatype PaymentStatus = PENDING | WAITING_FOR_CAPTURE | SUCCEEDED | CANCELED

fun PaymentStatus_value :: "PaymentStatus \<Rightarrow> string" where
  "PaymentStatus_value PENDING = ''pending''"
| "PaymentStatus_value WAITING_FOR_CAPTURE = ''waiting_for_capture''"
| "PaymentStatus_value SUCCEEDED = ''succeeded''"
| "PaymentStatus_value CANCELED = ''canceled''"

definition PaymentStatus_members :: "PaymentStatus list" where
  "PaymentStatus_members = [PENDING, WAITING_FOR_CAPTURE, SUCCEEDED, CANCELED]"

text \<open>
  The call \<open>PaymentStatus(status)\<close>: the member whose value is \<open>status\<close>, and
  \<open>ValueError\<close> when there is none.
\<close>

definition PaymentStatus_call :: "string \<Rightarrow> exn + PaymentStatus" where
  "PaymentStatus_call v =
     (case find (\<lambda>m. PaymentStatus_value m = v) PaymentStatus_members of
        Some m \<Rightarrow> Inr m
      | None \<Rightarrow> Inl (ValueError (v @ '' is not a valid PaymentStatus'')))"

text \<open>
  \<open>_map_status\<close> (\<open>yookassa_service.py\<close>, lines 21 to 27): the enumeration call inside
  \<open>try\<close>, and the \<open>except ValueError\<close> branch; any other exception would propagate.
\<close>

definition map_status :: "string \<Rightarrow> exn + PaymentStatus" where
  "map_status status =
     (case PaymentStatus_call status of
        Inr v \<Rightarrow> Inr v
      | Inl (ValueError m) \<Rightarrow>
          (if status = ''waiting_for_capture'' then Inr WAITING_FOR_CAPTURE
           else Inr PENDING)
      | Inl x \<Rightarrow> Inl x)"

text \<open>
  Modelled from the spec: the enumeration \<open>SubscriptionTier\<close> of the module \<open>models\<close>,
  which is not among the sources. The spec (section 3) gives the members FREE, PRO and
  ULTRA; \<open>service.py\<close> names \<open>SubscriptionTier.FREE\<close> with the value \<open>free\<close>, and the
  values taken here are the lower-case names.
\<close>

datatype SubscriptionTier = FREE | PRO | ULTRA

fun SubscriptionTier_value :: "SubscriptionTier \<Rightarrow> string" where
  "SubscriptionTier_value FREE = ''free''"
| "SubscriptionTier_value PRO = ''pro''"
| "SubscriptionTier_value ULTRA = ''ultra''"

definition SubscriptionTier_call :: "string \<Rightarrow> exn + SubscriptionTier" where
  "SubscriptionTier_call v =
     (case find (\<lambda>m. SubscriptionTier_value m = v) [FREE, PRO, ULTRA] of
        Some m \<Rightarrow> Inr m
      | None \<Rightarrow> Inl (ValueError (v @ '' is not a valid SubscriptionTier'')))"

text \<open>
  A webhook payload is the \<open>dict\<close> that a JSON body decodes to. Numbers are integers
  here; a float takes the same branches (it is falsy exactly when it is zero). A
  \<open>dict\<close> is an association list read with \<open>map_of\<close>.
\<close>

datatype json =
    JNull
  | JBool bool
  | JNum int
  | JStr string
  | JArr "json list"
  | JObj "(string \<times> json) list"

text \<open>Python's truth value of a decoded JSON value, as \<open>or\<close> and \<open>not\<close> test it.\<close>

fun truthy :: "json \<Rightarrow> bool" where
  "truthy JNull = False"
| "truthy (JBool b) = b"
| "truthy (JNum n) = (n \<noteq> 0)"
| "truthy (JStr s) = (s \<noteq> [])"
| "truthy (JArr xs) = (xs \<noteq> [])"
| "truthy (JObj kvs) = (kvs \<noteq> [])"

text \<open>\<open>d.get(k)\<close> on a \<open>dict\<close>: the value, or \<open>None\<close> (here \<open>JNull\<close>).\<close>

definition dict_get :: "(string \<times> json) list \<Rightarrow> string \<Rightarrow> json" where
  "dict_get d k = (case map_of d k of None \<Rightarrow> JNull | Some v \<Rightarrow> v)"

text \<open>
  \<open>v.get(k)\<close> on any decoded value: only a \<open>dict\<close> has the method, every other
  value raises \<open>AttributeError\<close>.
\<close>

fun attr_get :: "json \<Rightarrow> string \<Rightarrow> exn + json" where
  "attr_get (JObj d) k = Inr (dict_get d k)"
| "attr_get v k = Inl (AttributeError ''object has no attribute get'')"

text \<open>\<open>str.capitalize\<close> on ASCII text: first character upper case, the rest lower case.\<close>

definition upper_char :: "char \<Rightarrow> char" where
  "upper_char c =
     (let n = (of_char c :: nat) in if 97 \<le> n \<and> n \<le> 122 then char_of (n - 32) else c)"

definition lower_char :: "char \<Rightarrow> char" where
  "lower_char c =
     (let n = (of_char c :: nat) in if 65 \<le> n \<and> n \<le> 90 then char_of (n + 32) else c)"

fun capitalize :: "string \<Rightarrow> string" where
  "capitalize [] = []"
| "capitalize (c # cs) = upper_char c # map lower_char cs"


section \<open>Records of the store, the gateway and the configuration\<close>

text \<open>
  Modelled from the spec: the rows \<open>User\<close> and \<open>Payment\<close> of the module \<open>models\<close>,
  which is not among the sources. \<open>Payment\<close> has the columns that \<open>create_payment\<close>
  and \<open>check_payment\<close> write (spec, section 3); of \<open>User\<close> the code reads \<open>id\<close> only,
  and \<open>columns\<close> stands for everything else in the row (the subscription the grantor
  changes).
\<close>

record User =
  id_User :: int
  columns :: nat

text \<open>
  The description is the f-string's two interpolated values, the capitalised tier value
  and the user id; the fixed words around them are not ASCII and are left out.
\<close>

datatype Description = Description string int

record Payment =
  user_id :: int
  yookassa_payment_id :: string
  subscription_tier :: string
  amount :: int
  status :: PaymentStatus
  description :: Description
  confirmation_url :: "string option"
  processed_at :: "nat option"
  error_message :: "string option"

text \<open>
  What the code reads of the gateway SDK's response object: \<open>id\<close>, \<open>status\<close>,
  \<open>confirmation.confirmation_url\<close> and, through \<open>getattr\<close> with default \<open>None\<close>,
  \<open>cancellation_details\<close> and its \<open>reason\<close>.
\<close>

datatype Confirmation = Confirmation (confirmation_url_of: "string option")

datatype CancellationDetails = CancellationDetails (reason: "string option")

record PaymentResponse =
  response_id :: string
  response_status :: string
  confirmation :: "Confirmation option"
  cancellation_details :: "CancellationDetails option"

text \<open>
  The request \<open>create_payment\<close> sends: the amount in rubles as the text the code
  renders (two decimals), the currency, the return URL, the capture flag, the
  description and the metadata (the user id is the exact decimal text of an \<open>int\<close> and
  is kept as the \<open>int\<close>).
\<close>

record CreateRequest =
  amount_value :: string
  currency :: string
  return_url :: string
  capture :: bool
  request_description :: Description
  metadata_user_id :: int
  metadata_tier :: string

text \<open>The fields of \<open>config.settings\<close> that the code reads.\<close>

record settings =
  yookassa_webhook_secret :: "string option"
  pro_monthly_price :: int
  ultra_monthly_price :: int
  yookassa_return_url :: string

text \<open>
  The external collaborators, as parameters: the two gateway calls
  (\<open>YooPayment.create\<close>, \<open>YooPayment.find_one\<close>), the subscription grantor
  (\<open>UserService.upgrade_subscription\<close>, which returns the user row as it leaves it),
  \<open>json.dumps\<close> with the code's separators, HMAC-SHA256 with \<open>hexdigest\<close> over the
  UTF-8 encodings of secret and body, the key \<open>uuid4\<close> draws and the clock. Each of the
  calls may raise. \<open>float_format_2f\<close> is Python's rendering \<open>f"{n:.2f}"\<close> of an
  \<open>int\<close> that a float does not hold exactly: the \<open>int\<close> is converted to the nearest
  float, which raises \<open>OverflowError\<close> beyond the range of floats, and that float is
  rendered.
\<close>

record env =
  YooPayment_create :: "CreateRequest \<Rightarrow> string \<Rightarrow> exn + PaymentResponse"
  YooPayment_find_one :: "json \<Rightarrow> exn + PaymentResponse"
  upgrade_subscription :: "User \<Rightarrow> SubscriptionTier \<Rightarrow> int \<Rightarrow> exn + User"
  json_dumps :: "(string \<times> json) list \<Rightarrow> exn + string"
  hmac_sha256_hexdigest :: "string \<Rightarrow> string \<Rightarrow> exn + string"
  float_format_2f :: "int \<Rightarrow> exn + string"
  uuid4 :: string
  now :: nat

datatype gateway_call = Create CreateRequest string | FindOne json

datatype level = INFO | WARNING | ERROR

datatype log_arg = AStr string | AJson json | AExn exn

text \<open>A log record: level, the fixed text of the message, the values put into it.\<close>

datatype log_record = Log level string "log_arg list"

text \<open>
  The state the code works on: the two tables of the session, and what has been asked
  of the gateway, of the grantor and of the logger so far. The session is a table in
  memory: \<open>add\<close> appends a row, a row changed through the object a query returned is
  changed in place, and \<open>execute\<close> and \<open>flush\<close> do not fail.
\<close>

record world =
  payments :: "Payment list"
  users :: "User list"
  gateway_calls :: "gateway_call list"
  grant_calls :: "(User \<times> SubscriptionTier \<times> int) list"
  log :: "log_record list"

definition logger :: "level \<Rightarrow> string \<Rightarrow> log_arg list \<Rightarrow> world \<Rightarrow> world" where
  "logger l msg args w = w\<lparr>log := log w @ [Log l msg args]\<rparr>"

text \<open>
  \<open>select(...).where(...)\<close> gives the positions of the matching rows, so that a row
  changed through the returned object is changed in the table.
\<close>

definition select_where :: "('a \<Rightarrow> bool) \<Rightarrow> 'a list \<Rightarrow> nat list" where
  "select_where P rows = filter (\<lambda>i. P (rows ! i)) [0..<length rows]"

fun scalar_one_or_none :: "'a list \<Rightarrow> exn + 'a option" where
  "scalar_one_or_none [] = Inr None"
| "scalar_one_or_none [x] = Inr (Some x)"
| "scalar_one_or_none (x # y # zs) = Inl MultipleResultsFound"


section \<open>The operations of \<open>YooKassaService\<close>\<close>

text \<open>\<open>_get_tier_price_rubles\<close> (lines 38 to 44).\<close>

definition get_tier_price_rubles :: "settings \<Rightarrow> SubscriptionTier \<Rightarrow> int" where
  "get_tier_price_rubles cfg tier =
     (if tier = PRO then pro_monthly_price cfg
      else if tier = ULTRA then ultra_monthly_price cfg
      else 0)"

text \<open>
  \<open>hmac.compare_digest\<close> on two \<open>str\<close>: both must be ASCII, else \<open>TypeError\<close>; then
  it is equality.
\<close>

definition is_ascii :: "string \<Rightarrow> bool" where
  "is_ascii s = list_all (\<lambda>c. (of_char c :: nat) < 128) s"

definition compare_digest :: "string \<Rightarrow> string \<Rightarrow> exn + bool" where
  "compare_digest a b =
     (if is_ascii a \<and> is_ascii b then Inr (a = b)
      else Inl (TypeError ''comparing strings with non-ASCII characters is not supported''))"

text \<open>An unset or empty secret is falsy (\<open>not settings.yookassa_webhook_secret\<close>).\<close>

fun configured :: "string option \<Rightarrow> bool" where
  "configured None = False"
| "configured (Some s) = (s \<noteq> [])"

text \<open>
  \<open>verify_webhook_signature\<close> (lines 46 to 83). The \<open>try\<close> block is the chain of
  \<open>json.dumps\<close>, the HMAC and \<open>compare_digest\<close>; whatever one of them raises is
  logged and turned into \<open>False\<close>. The secret is read with \<open>the\<close> only past the
  guard, where it is set.
\<close>

definition verify_webhook_signature ::
    "settings \<Rightarrow> env \<Rightarrow> world \<Rightarrow> (string \<times> json) list \<Rightarrow> string \<Rightarrow> bool \<times> world" where
  "verify_webhook_signature cfg e w payload signature =
     (if \<not> configured (yookassa_webhook_secret cfg) then
        (True, logger WARNING ''YooKassa webhook secret not configured, skipping verification'' [] w)
      else
        (case json_dumps e payload of
           Inl exc \<Rightarrow> (False, logger ERROR ''Webhook signature verification failed'' [AExn exc] w)
         | Inr notification_body \<Rightarrow>
            (case hmac_sha256_hexdigest e (the (yookassa_webhook_secret cfg)) notification_body of
               Inl exc \<Rightarrow> (False, logger ERROR ''Webhook signature verification failed'' [AExn exc] w)
             | Inr expected_signature \<Rightarrow>
                (case compare_digest expected_signature signature of
                   Inl exc \<Rightarrow>
                     (False, logger ERROR ''Webhook signature verification failed'' [AExn exc] w)
                 | Inr is_valid \<Rightarrow>
                     (is_valid,
                      if \<not> is_valid then
                        logger WARNING ''Invalid webhook signature''
                          [AStr (take 16 expected_signature), AStr (take 16 signature)] w
                      else w)))))"

text \<open>
  The decimal text of a natural number, and \<open>f"{amount_rubles:.2f}"\<close> (line 98) on an
  \<open>int\<close>. The rendering goes through a float: up to \<open>2 ^ 53\<close> in absolute value every
  \<open>int\<close> is a float and the text is its decimal text followed by \<open>.00\<close>; beyond, the
  value is rounded or the conversion raises, which is left to \<open>float_format_2f\<close>.
\<close>

function decimal_nat :: "nat \<Rightarrow> string" where
  "decimal_nat n =
     (if n < 10 then [char_of (48 + n)]
      else decimal_nat (n div 10) @ [char_of (48 + n mod 10)])"
  by pat_completeness auto
termination
  by (relation "measure (\<lambda>n. n)") auto

definition format_2f :: "env \<Rightarrow> int \<Rightarrow> exn + string" where
  "format_2f e n =
     (if \<bar>n\<bar> \<le> 2 ^ 53 then
        Inr ((if n < 0 then ''-'' else []) @ decimal_nat (nat \<bar>n\<bar>) @ ''.00'')
      else float_format_2f e n)"

text \<open>
  \<open>create_payment\<close> (lines 85 to 131). The payload is built after the price check
  and outside the \<open>try\<close>, so what the rendering of the amount raises reaches the
  caller before the gateway is asked. The gateway is asked once; \<open>session.add\<close>
  appends the new row.
\<close>

definition create_payment ::
    "settings \<Rightarrow> env \<Rightarrow> world \<Rightarrow> User \<Rightarrow> SubscriptionTier \<Rightarrow> (exn + Payment) \<times> world" where
  "create_payment cfg e w user tier =
     (let amount_rubles = get_tier_price_rubles cfg tier;
          descr = Description (capitalize (SubscriptionTier_value tier)) (id_User user)
      in
      if amount_rubles \<le> 0 then
        (Inl (ValueError (''Invalid amount for tier '' @ SubscriptionTier_value tier)), w)
      else
       (case format_2f e amount_rubles of
          Inl exc \<Rightarrow> (Inl exc, w)
        | Inr rendered \<Rightarrow>
        (let payload = \<lparr>amount_value = rendered, currency = ''RUB'',
                          return_url = yookassa_return_url cfg, capture = True,
                          request_description = descr,
                          metadata_user_id = id_User user,
                          metadata_tier = SubscriptionTier_value tier\<rparr>;
             idempotence_key = uuid4 e;
             w1 = w\<lparr>gateway_calls := gateway_calls w @ [Create payload idempotence_key]\<rparr>
         in
         case YooPayment_create e payload idempotence_key of
           Inl exc \<Rightarrow> (Inl exc, logger ERROR ''Failed to create YooKassa payment'' [AExn exc] w1)
         | Inr response \<Rightarrow>
            (case map_status (response_status response) of
               Inl exc \<Rightarrow> (Inl exc, w1)
             | Inr st \<Rightarrow>
                (case confirmation response of
                   None \<Rightarrow> (Inl (AttributeError ''NoneType object has no attribute confirmation_url''), w1)
                 | Some c \<Rightarrow>
                    (let payment = \<lparr>user_id = id_User user,
                                      yookassa_payment_id = response_id response,
                                      subscription_tier = SubscriptionTier_value tier,
                                      amount = amount_rubles * 100,
                                      status = st,
                                      description = descr,
                                      confirmation_url = confirmation_url_of c,
                                      processed_at = None,
                                      error_message = None\<rparr>
                     in (Inr payment, w1\<lparr>payments := payments w1 @ [payment]\<rparr>)))))))"

text \<open>
  The body of the \<open>if\<close> at lines 158 to 163 of \<open>check_payment\<close>: look the user up, and
  if there is one, call the grantor for 30 days at the payment's tier. The result is the
  exception raised, if any, and the state left behind. A missing user is no exception.
\<close>

definition grant_subscription :: "env \<Rightarrow> world \<Rightarrow> Payment \<Rightarrow> exn option \<times> world" where
  "grant_subscription e w payment =
     (case scalar_one_or_none (select_where (\<lambda>u. id_User u = user_id payment) (users w)) of
        Inl exc \<Rightarrow> (Some exc, w)
      | Inr None \<Rightarrow> (None, w)
      | Inr (Some j) \<Rightarrow>
         (let user = users w ! j in
          case SubscriptionTier_call (subscription_tier payment) of
            Inl exc \<Rightarrow> (Some exc, w)
          | Inr tier \<Rightarrow>
             (let w1 = w\<lparr>grant_calls := grant_calls w @ [(user, tier, 30)]\<rparr> in
              case upgrade_subscription e user tier 30 of
                Inl exc \<Rightarrow> (Some exc, w1)
              | Inr user' \<Rightarrow> (None, w1\<lparr>users := (users w1)[j := user']\<rparr>))))"

text \<open>
  \<open>check_payment\<close> (lines 133 to 172). The id is whatever the caller passes
  (\<open>handle_webhook\<close> passes any truthy decoded value); a stored id, a string, equals it
  only when it is that string.
\<close>

definition check_payment :: "env \<Rightarrow> world \<Rightarrow> json \<Rightarrow> (exn + Payment) \<times> world" where
  "check_payment e w payment_id =
     (case scalar_one_or_none
             (select_where (\<lambda>p. JStr (yookassa_payment_id p) = payment_id) (payments w)) of
        Inl exc \<Rightarrow> (Inl exc, w)
      | Inr None \<Rightarrow> (Inl (ValueError ''Payment not found''), w)
      | Inr (Some i) \<Rightarrow>
         (let payment = payments w ! i in
          if status payment = SUCCEEDED then (Inr payment, w)
          else
            (let w1 = w\<lparr>gateway_calls := gateway_calls w @ [FindOne payment_id]\<rparr> in
             case YooPayment_find_one e payment_id of
               Inl exc \<Rightarrow>
                 (Inl exc, logger ERROR ''Failed to check YooKassa payment'' [AExn exc] w1)
             | Inr response \<Rightarrow>
                (case map_status (response_status response) of
                   Inl exc \<Rightarrow> (Inl exc, w1)
                 | Inr new_status \<Rightarrow>
                    (case (if new_status = SUCCEEDED \<and> status payment \<noteq> SUCCEEDED
                           then grant_subscription e w1 payment else (None, w1)) of
                       (Some exc, w2) \<Rightarrow> (Inl exc, w2)
                     | (None, w2) \<Rightarrow>
                        (let payment' = payment
                               \<lparr>status := new_status,
                                processed_at := Some (now e),
                                error_message :=
                                  (case cancellation_details response of
                                     None \<Rightarrow> None
                                   | Some cd \<Rightarrow> reason cd)\<rparr>
                         in (Inr payment', w2\<lparr>payments := (payments w2)[i := payment']\<rparr>)))))))"

text \<open>A supplied signature counts when it is not empty (\<open>if signature and ...\<close>).\<close>

fun supplied :: "string option \<Rightarrow> bool" where
  "supplied None = False"
| "supplied (Some s) = (s \<noteq> [])"

text \<open>
  \<open>handle_webhook\<close> (lines 174 to 201). Only the call of \<open>check_payment\<close> is inside a
  \<open>try\<close>; what \<open>event_object.get\<close> raises reaches the caller.
\<close>

definition handle_webhook ::
    "settings \<Rightarrow> env \<Rightarrow> world \<Rightarrow> (string \<times> json) list \<Rightarrow> string option
       \<Rightarrow> (exn + Payment option) \<times> world" where
  "handle_webhook cfg e w payload signature =
     (let w0 = logger INFO ''Processing YooKassa webhook (v3.3 - Fixed)'' [] w;
          (verified, w1) =
             (if supplied signature
              then verify_webhook_signature cfg e w0 payload (the signature)
              else (True, w0))
      in
      if \<not> verified then
        (Inr None, logger ERROR ''Webhook signature verification failed, ignoring webhook'' [] w1)
      else
        (let event_object =
               (if truthy (dict_get payload ''object'') then dict_get payload ''object''
                else JObj [])
         in
         case attr_get event_object ''id'' of
           Inl exc \<Rightarrow> (Inl exc, w1)
         | Inr payment_id \<Rightarrow>
            if \<not> truthy payment_id then (Inr None, w1)
            else
              (case check_payment e w1 payment_id of
                 (Inr payment, w2) \<Rightarrow> (Inr (Some payment), w2)
               | (Inl exc, w2) \<Rightarrow>
                   (Inr None,
                    logger ERROR ''Error handling webhook for payment''
                      [AJson payment_id, AExn exc] w2))))"

section \<open>Concrete scenarios\<close>

text \<open>
  A configuration with a webhook secret and one whose secret is the empty string, a
  gateway that reports a given status, a ledger with one payment
  (gateway id \<open>pay-1\<close>, user 7, tier \<open>pro\<close>) in a given status, and the webhook payload
  for a gateway id. The theorems below are instantiated on them.
\<close>

definition shop_settings :: settings where
  "shop_settings = \<lparr>yookassa_webhook_secret = Some ''whsec'', pro_monthly_price = 500,
     ultra_monthly_price = 900, yookassa_return_url = ''https://shop.example/return''\<rparr>"

definition dev_settings :: settings where
  "dev_settings = shop_settings\<lparr>yookassa_webhook_secret := Some []\<rparr>"

definition stub_env :: "string \<Rightarrow> env" where
  "stub_env st =
     \<lparr>YooPayment_create = (\<lambda>req key. Inr \<lparr>response_id = ''pay-1'', response_status = st,
          confirmation = Some (Confirmation (Some ''https://pay.example/confirm/1'')),
          cancellation_details = None\<rparr>),
      YooPayment_find_one = (\<lambda>k. Inr \<lparr>response_id = ''pay-1'', response_status = st,
          confirmation = None, cancellation_details = None\<rparr>),
      upgrade_subscription = (\<lambda>u t d. Inr (u\<lparr>columns := columns u + 1\<rparr>)),
      json_dumps = (\<lambda>p. Inr ''{}''),
      hmac_sha256_hexdigest = (\<lambda>secret body. Inr ''ab12''),
      float_format_2f = (\<lambda>n. Inl (OverflowError ''int too large to convert to float'')),
      uuid4 = ''key-1'',
      now = 1000\<rparr>"

definition ledger :: "PaymentStatus \<Rightarrow> world" where
  "ledger st =
     \<lparr>payments = [\<lparr>user_id = 7, yookassa_payment_id = ''pay-1'', subscription_tier = ''pro'',
          amount = 50000, status = st, description = Description ''Pro'' 7,
          confirmation_url = Some ''https://pay.example/confirm/1'',
          processed_at = None, error_message = None\<rparr>],
      users = [\<lparr>id_User = 7, columns = 0\<rparr>],
      gateway_calls = [], grant_calls = [], log = []\<rparr>"

definition webhook_for :: "string \<Rightarrow> (string \<times> json) list" where
  "webhook_for pid = [(''event'', JStr ''payment.succeeded''), (''object'', JObj [(''id'', JStr pid)])]"

section \<open>Facts about the store and the steps\<close>

lemma filter_eq_index: "filter (\<lambda>j. j = i) [0..<n] = (if i < n then [i] else [])"
  by (induction n) auto

lemma select_where_unique:
  assumes "distinct (map f rows)" and "i < length rows"
  shows "select_where (\<lambda>r. f r = f (rows ! i)) rows = [i]"
proof -
  have "filter (\<lambda>j. f (rows ! j) = f (rows ! i)) [0..<length rows]
          = filter (\<lambda>j. j = i) [0..<length rows]"
  proof (rule filter_cong [OF refl])
    fix j assume "j \<in> set [0..<length rows]"
    then have j: "j < length rows" by simp
    from assms j show "(f (rows ! j) = f (rows ! i)) = (j = i)"
      using nth_eq_iff_index_eq [of "map f rows" j i] by simp
  qed
  with assms(2) show ?thesis
    by (simp add: select_where_def filter_eq_index)
qed

lemma scalar_one_or_none_Some:
  "scalar_one_or_none xs = Inr (Some j) \<Longrightarrow> xs = [j]"
  by (cases xs rule: scalar_one_or_none.cases) auto

lemma select_where_found:
  assumes "scalar_one_or_none (select_where P rows) = Inr (Some j)"
  shows "j < length rows \<and> P (rows ! j)"
proof -
  from assms have "select_where P rows = [j]" by (rule scalar_one_or_none_Some)
  then have "j \<in> set (select_where P rows)" by simp
  then show ?thesis by (simp add: select_where_def)
qed

lemma grant_subscription_keeps:
  "payments (snd (grant_subscription e w p)) = payments w \<and>
   gateway_calls (snd (grant_subscription e w p)) = gateway_calls w \<and>
   log (snd (grant_subscription e w p)) = log w"
  by (simp add: grant_subscription_def Let_def split: sum.splits option.splits)

lemma check_payment_succeeded:
  assumes "distinct (map yookassa_payment_id (payments w))" and "i < length (payments w)"
    and "status (payments w ! i) = SUCCEEDED"
  shows "check_payment e w (JStr (yookassa_payment_id (payments w ! i))) = (Inr (payments w ! i), w)"
  using assms by (simp add: check_payment_def select_where_unique)

lemma verify_webhook_signature_fst:
  "fst (verify_webhook_signature cfg e w payload s) = fst (verify_webhook_signature cfg e w' payload s)"
  by (simp add: verify_webhook_signature_def split: sum.splits)

lemma verify_webhook_signature_keeps:
  "payments (snd (verify_webhook_signature cfg e w payload s)) = payments w \<and>
   users (snd (verify_webhook_signature cfg e w payload s)) = users w \<and>
   gateway_calls (snd (verify_webhook_signature cfg e w payload s)) = gateway_calls w \<and>
   grant_calls (snd (verify_webhook_signature cfg e w payload s)) = grant_calls w"
  by (simp add: verify_webhook_signature_def logger_def split: sum.splits)

lemma check_payment_fetch:
  assumes "distinct (map yookassa_payment_id (payments w))" and "i < length (payments w)"
    and "status (payments w ! i) \<noteq> SUCCEEDED"
    and "YooPayment_find_one e (JStr (yookassa_payment_id (payments w ! i))) = Inr r"
    and "map_status (response_status r) = Inr st"
  shows "check_payment e w (JStr (yookassa_payment_id (payments w ! i))) =
     (case (if st = SUCCEEDED
            then grant_subscription e
                   (w\<lparr>gateway_calls := gateway_calls w @ [FindOne (JStr (yookassa_payment_id (payments w ! i)))]\<rparr>)
                   (payments w ! i)
            else (None, w\<lparr>gateway_calls := gateway_calls w @ [FindOne (JStr (yookassa_payment_id (payments w ! i)))]\<rparr>)) of
        (Some exc, w2) \<Rightarrow> (Inl exc, w2)
      | (None, w2) \<Rightarrow>
          (Inr ((payments w ! i)\<lparr>status := st, processed_at := Some (now e),
                  error_message := (case cancellation_details r of None \<Rightarrow> None | Some cd \<Rightarrow> reason cd)\<rparr>),
           w2\<lparr>payments := (payments w2)[i := (payments w ! i)\<lparr>status := st, processed_at := Some (now e),
                  error_message := (case cancellation_details r of None \<Rightarrow> None | Some cd \<Rightarrow> reason cd)\<rparr>]\<rparr>))"
  using assms by (simp add: check_payment_def select_where_unique Let_def split: prod.splits option.splits)

lemma grant_subscription_payments:
  "grant_subscription e w p = (x, w2) \<Longrightarrow> payments w2 = payments w"
  using grant_subscription_keeps [of e w p] by simp

lemma check_payment_keeps_succeeded:
  assumes "i < length (payments w)" and "status (payments w ! i) = SUCCEEDED"
  shows "payments (snd (check_payment e w k)) ! i = payments w ! i"
proof (cases "scalar_one_or_none (select_where (\<lambda>p. JStr (yookassa_payment_id p) = k) (payments w))")
  case (Inl exc)
  then show ?thesis by (simp add: check_payment_def)
next
  case (Inr found)
  show ?thesis
  proof (cases found)
    case None
    with Inr show ?thesis by (simp add: check_payment_def)
  next
    case (Some j)
    show ?thesis
    proof (cases "j = i")
      case True
      with Inr Some assms show ?thesis by (simp add: check_payment_def)
    next
      case False
      with Inr Some show ?thesis
        by (auto simp add: check_payment_def Let_def logger_def
              split: sum.splits prod.splits option.splits
              dest: grant_subscription_payments)
    qed
  qed
qed

lemma handle_webhook_unfold:
  assumes v: "(if supplied sg
               then verify_webhook_signature cfg e
                      (logger INFO ''Processing YooKassa webhook (v3.3 - Fixed)'' [] w) payload (the sg)
               else (True, logger INFO ''Processing YooKassa webhook (v3.3 - Fixed)'' [] w)) = (verified, w1)"
  shows "handle_webhook cfg e w payload sg =
     (if \<not> verified then
        (Inr None, logger ERROR ''Webhook signature verification failed, ignoring webhook'' [] w1)
      else
        (case attr_get (if truthy (dict_get payload ''object'') then dict_get payload ''object''
                        else JObj []) ''id'' of
           Inl exc \<Rightarrow> (Inl exc, w1)
         | Inr payment_id \<Rightarrow>
            if \<not> truthy payment_id then (Inr None, w1)
            else
              (case check_payment e w1 payment_id of
                 (Inr payment, w2) \<Rightarrow> (Inr (Some payment), w2)
               | (Inl exc, w2) \<Rightarrow>
                   (Inr None,
                    logger ERROR ''Error handling webhook for payment''
                      [AJson payment_id, AExn exc] w2))))"
  unfolding handle_webhook_def Let_def v by simp

lemma verify_step_keeps:
  assumes v: "(if supplied sg
               then verify_webhook_signature cfg e (logger l m [] w) payload s
               else (True, logger l m [] w)) = (verified, w1)"
  shows "payments w1 = payments w \<and> users w1 = users w \<and>
         gateway_calls w1 = gateway_calls w \<and> grant_calls w1 = grant_calls w"
proof (cases "supplied sg")
  case True
  with v have "w1 = snd (verify_webhook_signature cfg e (logger l m [] w) payload s)" by simp
  then show ?thesis
    using verify_webhook_signature_keeps [of cfg e "logger l m [] w" payload s]
    by (simp add: logger_def)
next
  case False
  with v show ?thesis by (auto simp add: logger_def)
qed

lemma verify_step_fst:
  assumes v: "(if supplied sg
               then verify_webhook_signature cfg e (logger l m [] w) payload s
               else (True, logger l m [] w)) = (verified, w1)"
  shows "verified = (\<not> supplied sg \<or> fst (verify_webhook_signature cfg e w payload s))"
proof (cases "supplied sg")
  case True
  with v have "verified = fst (verify_webhook_signature cfg e (logger l m [] w) payload s)" by simp
  with True show ?thesis
    using verify_webhook_signature_fst [of cfg e "logger l m [] w" payload s w] by simp
next
  case False
  with v show ?thesis by auto
qed

lemma dict_get_nonempty: "dict_get d k = JStr s \<Longrightarrow> d \<noteq> []"
  by (auto simp add: dict_get_def)

lemma PaymentStatus_call_cases:
  "PaymentStatus_call s =
     (if s = ''pending'' then Inr PENDING
      else if s = ''waiting_for_capture'' then Inr WAITING_FOR_CAPTURE
      else if s = ''succeeded'' then Inr SUCCEEDED
      else if s = ''canceled'' then Inr CANCELED
      else Inl (ValueError (s @ '' is not a valid PaymentStatus'')))"
  by (simp add: PaymentStatus_call_def PaymentStatus_members_def)

lemma map_status_eq:
  "map_status s =
     Inr (if s = ''pending'' then PENDING
      else if s = ''waiting_for_capture'' then WAITING_FOR_CAPTURE
      else if s = ''succeeded'' then SUCCEEDED
      else if s = ''canceled'' then CANCELED
      else PENDING)"
  by (simp add: map_status_def PaymentStatus_call_cases)

lemma select_where_none:
  assumes "\<forall>r\<in>set rows. \<not> P r"
  shows "select_where P rows = []"
  using assms by (simp add: select_where_def filter_empty_conv)

lemma select_where_unique_key:
  assumes "distinct (map f rows)" and "j < length rows" and "f (rows ! j) = v"
  shows "select_where (\<lambda>r. f r = v) rows = [j]"
  using select_where_unique [OF assms(1,2)] assms(3) by simp

lemma handle_webhook_keeps_succeeded:
  assumes "i < length (payments w)" and "status (payments w ! i) = SUCCEEDED"
  shows "payments (snd (handle_webhook cfg e w payload sg)) ! i = payments w ! i"
proof -
  let ?w0 = "logger INFO ''Processing YooKassa webhook (v3.3 - Fixed)'' [] w"
  obtain verified w1 where v:
    "(if supplied sg then verify_webhook_signature cfg e ?w0 payload (the sg) else (True, ?w0))
       = (verified, w1)"
    by (cases "if supplied sg then verify_webhook_signature cfg e ?w0 payload (the sg) else (True, ?w0)")
  from verify_step_keeps [OF v] have w1: "payments w1 = payments w" by simp
  have cp: "payments (snd (check_payment e w1 k)) ! i = payments w ! i" for k
    using check_payment_keeps_succeeded [of i w1 e k] assms w1 by simp
  show ?thesis
  proof (cases verified)
    case False
    then show ?thesis by (simp add: handle_webhook_unfold [OF v] logger_def w1)
  next
    case True
    show ?thesis
    proof (cases "attr_get (if truthy (dict_get payload ''object'')
                            then dict_get payload ''object'' else JObj []) ''id''")
      case (Inl exc)
      with True show ?thesis by (simp add: handle_webhook_unfold [OF v] w1)
    next
      case (Inr payment_id)
      show ?thesis
      proof (cases "truthy payment_id")
        case False
        with True Inr show ?thesis by (simp add: handle_webhook_unfold [OF v] w1)
      next
        case t: True
        obtain res w2 where c: "check_payment e w1 payment_id = (res, w2)"
          by (cases "check_payment e w1 payment_id")
        with cp [of payment_id] have "payments w2 ! i = payments w ! i" by simp
        with True Inr t c show ?thesis
          by (cases res) (simp_all add: handle_webhook_unfold [OF v] logger_def)
      qed
    qed
  qed
qed

lemma compare_digest_True: "compare_digest a b = Inr True \<Longrightarrow> a = b"
  by (simp add: compare_digest_def split: if_splits)

lemma verify_webhook_signature_True:
  assumes "configured (yookassa_webhook_secret cfg)"
    and "fst (verify_webhook_signature cfg e w payload sg)"
  shows "\<exists>body. json_dumps e payload = Inr body \<and>
           hmac_sha256_hexdigest e (the (yookassa_webhook_secret cfg)) body = Inr sg"
  using assms
  by (auto simp add: verify_webhook_signature_def split: sum.splits dest: compare_digest_True)

lemma verify_webhook_signature_False:
  assumes "configured (yookassa_webhook_secret cfg)"
    and "json_dumps e payload = Inr body"
    and "hmac_sha256_hexdigest e (the (yookassa_webhook_secret cfg)) body = Inr expected"
    and "sg \<noteq> expected"
  shows "\<not> fst (verify_webhook_signature cfg e w payload sg)"
  using assms
  by (auto simp add: verify_webhook_signature_def compare_digest_def split: sum.splits)


text \<open>
  The bare call \<open>PaymentStatus(status)\<close>, which \<open>create_payment\<close> and \<open>check_payment\<close>
  of \<open>service.py\<close> (lines 70 and 91) make outside any \<open>try\<close>, raises on every string
  that is not one of the four values.
\<close>

lemma PaymentStatus_call_unknown:
  "s \<notin> {''pending'', ''waiting_for_capture'', ''succeeded'', ''canceled''} \<Longrightarrow>
     PaymentStatus_call s = Inl (ValueError (s @ '' is not a valid PaymentStatus''))"
  by (simp add: PaymentStatus_call_cases)

section \<open>The status mapper\<close>

text \<open>
  Claim C4. The status mapper never raises: on every string it returns a status. The
  four known literals give their members, and every other string gives \<open>PENDING\<close>,
  so never \<open>SUCCEEDED\<close> or \<open>CANCELED\<close>.
\<close>

theorem map_status_total:
  "map_status ''pending'' = Inr PENDING \<and>
   map_status ''waiting_for_capture'' = Inr WAITING_FOR_CAPTURE \<and>
   map_status ''succeeded'' = Inr SUCCEEDED \<and>
   map_status ''canceled'' = Inr CANCELED \<and>
   (s \<notin> {''pending'', ''waiting_for_capture'', ''succeeded'', ''canceled''}
      \<longrightarrow> map_status s = Inr PENDING) \<and>
   (\<exists>v. map_status s = Inr v)"
  by (simp add: map_status_eq)

theorem map_status_total_witness:
  "''refunded'' \<notin> {''pending'', ''waiting_for_capture'', ''succeeded'', ''canceled''} \<and>
   map_status ''refunded'' = Inr PENDING"
  using map_status_total [of "''refunded''"] by simp

section \<open>Reconciliation\<close>

text \<open>
  Claim C1. In a store whose gateway ids are distinct, \<open>check_payment\<close> on the id of a
  payment that is already \<open>SUCCEEDED\<close> returns that row and leaves the whole state as it
  was: no gateway call, no grantor call, no field changed. \<open>handle_webhook\<close> with a
  payload that carries this id returns the same row when the signature is absent, empty
  or verified (and \<open>None\<close> when it is rejected), and changes neither table nor the
  gateway and grantor call records.
\<close>

theorem succeeded_short_circuit:
  assumes "distinct (map yookassa_payment_id (payments w))"
    and "i < length (payments w)"
    and "status (payments w ! i) = SUCCEEDED"
  shows "check_payment e w (JStr (yookassa_payment_id (payments w ! i))) = (Inr (payments w ! i), w) \<and>
    (dict_get payload ''object'' = JObj d \<and>
     dict_get d ''id'' = JStr (yookassa_payment_id (payments w ! i)) \<and>
     yookassa_payment_id (payments w ! i) \<noteq> [] \<longrightarrow>
       fst (handle_webhook cfg e w payload sg) =
         (if (case sg of None \<Rightarrow> True
              | Some s \<Rightarrow> s = [] \<or> fst (verify_webhook_signature cfg e w payload s))
          then Inr (Some (payments w ! i)) else Inr None) \<and>
       payments (snd (handle_webhook cfg e w payload sg)) = payments w \<and>
       users (snd (handle_webhook cfg e w payload sg)) = users w \<and>
       gateway_calls (snd (handle_webhook cfg e w payload sg)) = gateway_calls w \<and>
       grant_calls (snd (handle_webhook cfg e w payload sg)) = grant_calls w)"
proof (intro conjI impI)
  show "check_payment e w (JStr (yookassa_payment_id (payments w ! i))) = (Inr (payments w ! i), w)"
    using assms by (rule check_payment_succeeded)
next
  assume h: "dict_get payload ''object'' = JObj d \<and>
     dict_get d ''id'' = JStr (yookassa_payment_id (payments w ! i)) \<and>
     yookassa_payment_id (payments w ! i) \<noteq> []"
  let ?w0 = "logger INFO ''Processing YooKassa webhook (v3.3 - Fixed)'' [] w"
  obtain verified w1 where v:
    "(if supplied sg then verify_webhook_signature cfg e ?w0 payload (the sg) else (True, ?w0))
       = (verified, w1)"
    by (cases "if supplied sg then verify_webhook_signature cfg e ?w0 payload (the sg) else (True, ?w0)")
  note keeps = verify_step_keeps [OF v]
  have ver: "verified = (case sg of None \<Rightarrow> True
              | Some s \<Rightarrow> s = [] \<or> fst (verify_webhook_signature cfg e w payload s))"
    using verify_step_fst [OF v] by (cases sg) auto
  from h have d: "d \<noteq> []" by (auto dest: dict_get_nonempty)
  have cp: "check_payment e w1 (JStr (yookassa_payment_id (payments w ! i))) = (Inr (payments w ! i), w1)"
    using check_payment_succeeded [of w1 i e] assms keeps by simp
  have hw: "handle_webhook cfg e w payload sg =
      (if \<not> verified
       then (Inr None, logger ERROR ''Webhook signature verification failed, ignoring webhook'' [] w1)
       else (Inr (Some (payments w ! i)), w1))"
    using h d cp by (simp add: handle_webhook_unfold [OF v])
  show "fst (handle_webhook cfg e w payload sg) =
         (if (case sg of None \<Rightarrow> True
              | Some s \<Rightarrow> s = [] \<or> fst (verify_webhook_signature cfg e w payload s))
          then Inr (Some (payments w ! i)) else Inr None)"
    by (simp add: hw ver)
  show "payments (snd (handle_webhook cfg e w payload sg)) = payments w"
    using keeps by (simp add: hw logger_def)
  show "users (snd (handle_webhook cfg e w payload sg)) = users w"
    using keeps by (simp add: hw logger_def)
  show "gateway_calls (snd (handle_webhook cfg e w payload sg)) = gateway_calls w"
    using keeps by (simp add: hw logger_def)
  show "grant_calls (snd (handle_webhook cfg e w payload sg)) = grant_calls w"
    using keeps by (simp add: hw logger_def)
qed

theorem succeeded_short_circuit_witness:
  "distinct (map yookassa_payment_id (payments (ledger SUCCEEDED))) \<and>
   (0::nat) < length (payments (ledger SUCCEEDED)) \<and>
   status (payments (ledger SUCCEEDED) ! 0) = SUCCEEDED \<and>
   dict_get (webhook_for ''pay-1'') ''object'' = JObj [(''id'', JStr ''pay-1'')] \<and>
   check_payment (stub_env ''canceled'') (ledger SUCCEEDED) (JStr ''pay-1'')
      = (Inr (payments (ledger SUCCEEDED) ! 0), ledger SUCCEEDED) \<and>
   fst (handle_webhook shop_settings (stub_env ''canceled'') (ledger SUCCEEDED)
          (webhook_for ''pay-1'') None) = Inr (Some (payments (ledger SUCCEEDED) ! 0)) \<and>
   gateway_calls (snd (handle_webhook shop_settings (stub_env ''canceled'') (ledger SUCCEEDED)
          (webhook_for ''pay-1'') None)) = []"
  using succeeded_short_circuit [of "ledger SUCCEEDED" 0 "stub_env ''canceled''"
          "webhook_for ''pay-1''" "[(''id'', JStr ''pay-1'')]" shop_settings None]
  by (simp add: ledger_def webhook_for_def dict_get_def)

text \<open>
  Claim C2, as the code has it. When the fetched status maps to \<open>SUCCEEDED\<close>, the
  payment was not \<open>SUCCEEDED\<close>, its user row exists and its stored tier names a tier,
  the grantor is called for that user, that tier and 30 days before anything is
  committed. If the grantor raises, \<open>check_payment\<close> raises the same exception and the
  payments table is the one it found, so the payment keeps its former status; if the
  grantor returns, the row is committed as \<open>SUCCEEDED\<close>.
\<close>

theorem grant_before_commit:
  assumes "distinct (map yookassa_payment_id (payments w))"
    and "i < length (payments w)"
    and "status (payments w ! i) \<noteq> SUCCEEDED"
    and "YooPayment_find_one e (JStr (yookassa_payment_id (payments w ! i))) = Inr r"
    and "map_status (response_status r) = Inr SUCCEEDED"
    and "distinct (map id_User (users w))"
    and "j < length (users w)"
    and "id_User (users w ! j) = user_id (payments w ! i)"
    and "SubscriptionTier_call (subscription_tier (payments w ! i)) = Inr tier"
  shows "check_payment e w (JStr (yookassa_payment_id (payments w ! i))) =
     (case upgrade_subscription e (users w ! j) tier 30 of
        Inl exc \<Rightarrow>
          (Inl exc,
           w\<lparr>gateway_calls := gateway_calls w @ [FindOne (JStr (yookassa_payment_id (payments w ! i)))],
             grant_calls := grant_calls w @ [(users w ! j, tier, 30)]\<rparr>)
      | Inr user' \<Rightarrow>
          (Inr ((payments w ! i)
                  \<lparr>status := SUCCEEDED, processed_at := Some (now e),
                   error_message := (case cancellation_details r of None \<Rightarrow> None | Some cd \<Rightarrow> reason cd)\<rparr>),
           w\<lparr>gateway_calls := gateway_calls w @ [FindOne (JStr (yookassa_payment_id (payments w ! i)))],
             grant_calls := grant_calls w @ [(users w ! j, tier, 30)],
             users := (users w)[j := user'],
             payments := (payments w)
               [i := (payments w ! i)
                  \<lparr>status := SUCCEEDED, processed_at := Some (now e),
                   error_message := (case cancellation_details r of None \<Rightarrow> None | Some cd \<Rightarrow> reason cd)\<rparr>]\<rparr>))"
proof -
  let ?w1 = "w\<lparr>gateway_calls := gateway_calls w @ [FindOne (JStr (yookassa_payment_id (payments w ! i)))]\<rparr>"
  have sel: "select_where (\<lambda>u. id_User u = user_id (payments w ! i)) (users w) = [j]"
    using assms(6-8) by (rule select_where_unique_key)
  have g: "grant_subscription e ?w1 (payments w ! i) =
     (case upgrade_subscription e (users w ! j) tier 30 of
        Inl exc \<Rightarrow> (Some exc, ?w1\<lparr>grant_calls := grant_calls w @ [(users w ! j, tier, 30)]\<rparr>)
      | Inr user' \<Rightarrow> (None, ?w1\<lparr>grant_calls := grant_calls w @ [(users w ! j, tier, 30)],
                                  users := (users w)[j := user']\<rparr>))"
    using sel assms(9) by (simp add: grant_subscription_def Let_def split: sum.splits)
  show ?thesis
    by (simp add: check_payment_fetch [OF assms(1-5)] g split: sum.splits)
qed

theorem grant_before_commit_witness:
  "distinct (map yookassa_payment_id (payments (ledger PENDING))) \<and>
   status (payments (ledger PENDING) ! 0) \<noteq> SUCCEEDED \<and>
   map_status ''succeeded'' = Inr SUCCEEDED \<and>
   id_User (users (ledger PENDING) ! 0) = user_id (payments (ledger PENDING) ! 0) \<and>
   SubscriptionTier_call (subscription_tier (payments (ledger PENDING) ! 0)) = Inr PRO \<and>
   check_payment
     ((stub_env ''succeeded'')\<lparr>upgrade_subscription := (\<lambda>u t d. Inl (External ''grant failed''))\<rparr>)
     (ledger PENDING) (JStr ''pay-1'')
     = (Inl (External ''grant failed''),
        (ledger PENDING)\<lparr>gateway_calls := [FindOne (JStr ''pay-1'')],
                         grant_calls := [(\<lparr>id_User = 7, columns = 0\<rparr>, PRO, 30)]\<rparr>) \<and>
   snd (check_payment (stub_env ''succeeded'') (ledger PENDING) (JStr ''pay-1''))
     = \<lparr>payments = [(payments (ledger PENDING) ! 0)\<lparr>status := SUCCEEDED, processed_at := Some 1000\<rparr>],
        users = [\<lparr>id_User = 7, columns = 1\<rparr>],
        gateway_calls = [FindOne (JStr ''pay-1'')],
        grant_calls = [(\<lparr>id_User = 7, columns = 0\<rparr>, PRO, 30)],
        log = []\<rparr>"
  using grant_before_commit [of "ledger PENDING" 0
      "(stub_env ''succeeded'')\<lparr>upgrade_subscription := (\<lambda>u t d. Inl (External ''grant failed''))\<rparr>"
      "\<lparr>response_id = ''pay-1'', response_status = ''succeeded'',
          confirmation = None, cancellation_details = None\<rparr>" 0 PRO]
    grant_before_commit [of "ledger PENDING" 0 "stub_env ''succeeded''"
      "\<lparr>response_id = ''pay-1'', response_status = ''succeeded'',
          confirmation = None, cancellation_details = None\<rparr>" 0 PRO]
  by (simp add: ledger_def stub_env_def map_status_eq SubscriptionTier_call_def)

text \<open>
  Claim C2 as stated fails when the payment's user row is missing: the payment waiting
  for capture belongs to user 7, the only user row is user 8, the gateway reports
  \<open>succeeded\<close>, and the row is committed as \<open>SUCCEEDED\<close> with no grantor call.
\<close>

theorem grant_skipped_counterexample:
  "status (payments ((ledger WAITING_FOR_CAPTURE)\<lparr>users := [\<lparr>id_User = 8, columns = 0\<rparr>]\<rparr>) ! 0)
     = WAITING_FOR_CAPTURE \<and>
   map_status (response_status \<lparr>response_id = ''pay-1'', response_status = ''succeeded'',
          confirmation = None, cancellation_details = None\<rparr>) = Inr SUCCEEDED \<and>
   check_payment (stub_env ''succeeded'')
     ((ledger WAITING_FOR_CAPTURE)\<lparr>users := [\<lparr>id_User = 8, columns = 0\<rparr>]\<rparr>) (JStr ''pay-1'')
     = (Inr ((payments (ledger WAITING_FOR_CAPTURE) ! 0)
               \<lparr>status := SUCCEEDED, processed_at := Some 1000\<rparr>),
        \<lparr>payments = [(payments (ledger WAITING_FOR_CAPTURE) ! 0)
               \<lparr>status := SUCCEEDED, processed_at := Some 1000\<rparr>],
         users = [\<lparr>id_User = 8, columns = 0\<rparr>],
         gateway_calls = [FindOne (JStr ''pay-1'')],
         grant_calls = [],
         log = []\<rparr>)"
  by (simp add: check_payment_def grant_subscription_def select_where_def ledger_def stub_env_def
        map_status_eq Let_def)

text \<open>
  Claim C3, as the code has it. \<open>SUCCEEDED\<close> is the terminal status: a row that is
  \<open>SUCCEEDED\<close> is left as it is by every \<open>check_payment\<close> and every \<open>handle_webhook\<close>,
  whatever id or payload they are given. \<open>CANCELED\<close> is not: \<open>check_payment\<close> on a
  \<open>CANCELED\<close> payment fetches the gateway record and, when it returns, has committed
  the mapped status of that record, whatever it is; it raises, leaving the payments
  table as it was, only when the mapped status is \<open>SUCCEEDED\<close> and the grant step
  raises.
\<close>

theorem succeeded_only_terminal:
  "(i < length (payments w) \<and> status (payments w ! i) = SUCCEEDED \<longrightarrow>
      payments (snd (check_payment e w k)) ! i = payments w ! i \<and>
      payments (snd (handle_webhook cfg e w payload sg)) ! i = payments w ! i) \<and>
   (distinct (map yookassa_payment_id (payments w)) \<and> i < length (payments w) \<and>
    status (payments w ! i) = CANCELED \<and>
    YooPayment_find_one e (JStr (yookassa_payment_id (payments w ! i))) = Inr r \<and>
    map_status (response_status r) = Inr st \<longrightarrow>
      (case fst (check_payment e w (JStr (yookassa_payment_id (payments w ! i)))) of
         Inr p' \<Rightarrow>
           status p' = st \<and>
           payments (snd (check_payment e w (JStr (yookassa_payment_id (payments w ! i)))))
             = (payments w)[i := p']
       | Inl exc \<Rightarrow>
           st = SUCCEEDED \<and>
           payments (snd (check_payment e w (JStr (yookassa_payment_id (payments w ! i)))))
             = payments w))"
proof (intro conjI impI)
  assume "i < length (payments w) \<and> status (payments w ! i) = SUCCEEDED"
  then show "payments (snd (check_payment e w k)) ! i = payments w ! i"
    by (simp add: check_payment_keeps_succeeded)
next
  assume "i < length (payments w) \<and> status (payments w ! i) = SUCCEEDED"
  then show "payments (snd (handle_webhook cfg e w payload sg)) ! i = payments w ! i"
    by (simp add: handle_webhook_keeps_succeeded)
next
  let ?k = "JStr (yookassa_payment_id (payments w ! i))"
  let ?w1 = "w\<lparr>gateway_calls := gateway_calls w @ [FindOne ?k]\<rparr>"
  assume h: "distinct (map yookassa_payment_id (payments w)) \<and> i < length (payments w) \<and>
    status (payments w ! i) = CANCELED \<and>
    YooPayment_find_one e ?k = Inr r \<and>
    map_status (response_status r) = Inr st"
  then have f: "check_payment e w ?k =
     (case (if st = SUCCEEDED then grant_subscription e ?w1 (payments w ! i) else (None, ?w1)) of
        (Some exc, w2) \<Rightarrow> (Inl exc, w2)
      | (None, w2) \<Rightarrow>
          (Inr ((payments w ! i)\<lparr>status := st, processed_at := Some (now e),
                  error_message := (case cancellation_details r of None \<Rightarrow> None | Some cd \<Rightarrow> reason cd)\<rparr>),
           w2\<lparr>payments := (payments w2)[i := (payments w ! i)\<lparr>status := st, processed_at := Some (now e),
                  error_message := (case cancellation_details r of None \<Rightarrow> None | Some cd \<Rightarrow> reason cd)\<rparr>]\<rparr>))"
    by (intro check_payment_fetch) simp_all
  show "case fst (check_payment e w ?k) of
         Inr p' \<Rightarrow> status p' = st \<and> payments (snd (check_payment e w ?k)) = (payments w)[i := p']
       | Inl exc \<Rightarrow> st = SUCCEEDED \<and> payments (snd (check_payment e w ?k)) = payments w"
  proof (cases "st = SUCCEEDED")
    case False
    then show ?thesis by (simp add: f)
  next
    case True
    obtain x w2 where g: "grant_subscription e ?w1 (payments w ! i) = (x, w2)"
      by (cases "grant_subscription e ?w1 (payments w ! i)")
    from grant_subscription_payments [OF g] have "payments w2 = payments w" by simp
    with True g show ?thesis by (cases x) (simp_all add: f)
  qed
qed

theorem succeeded_only_terminal_witness:
  "(0 < length (payments (ledger SUCCEEDED)) \<and> status (payments (ledger SUCCEEDED) ! 0) = SUCCEEDED) \<and>
   payments (snd (check_payment (stub_env ''canceled'') (ledger SUCCEEDED) (JStr ''pay-1''))) ! 0
     = payments (ledger SUCCEEDED) ! 0 \<and>
   payments (snd (handle_webhook shop_settings (stub_env ''canceled'') (ledger SUCCEEDED)
     (webhook_for ''pay-1'') None)) ! 0 = payments (ledger SUCCEEDED) ! 0 \<and>
   (distinct (map yookassa_payment_id (payments (ledger CANCELED))) \<and>
    status (payments (ledger CANCELED) ! 0) = CANCELED \<and>
    map_status ''waiting_for_capture'' = Inr WAITING_FOR_CAPTURE) \<and>
   fst (check_payment (stub_env ''waiting_for_capture'') (ledger CANCELED) (JStr ''pay-1''))
     = Inr ((payments (ledger CANCELED) ! 0)
              \<lparr>status := WAITING_FOR_CAPTURE, processed_at := Some 1000\<rparr>)"
  using succeeded_only_terminal [of 0 "ledger SUCCEEDED" "stub_env ''canceled''" "JStr ''pay-1''"
          shop_settings "webhook_for ''pay-1''" None
          "\<lparr>response_id = ''pay-1'', response_status = ''canceled'',
             confirmation = None, cancellation_details = None\<rparr>" CANCELED]
    succeeded_only_terminal [of 0 "ledger CANCELED" "stub_env ''waiting_for_capture''" "JStr ''pay-1''"
          shop_settings "webhook_for ''pay-1''" None
          "\<lparr>response_id = ''pay-1'', response_status = ''waiting_for_capture'',
             confirmation = None, cancellation_details = None\<rparr>" WAITING_FOR_CAPTURE]
  by (simp add: handle_webhook_def check_payment_def grant_subscription_def select_where_def
        ledger_def stub_env_def webhook_for_def dict_get_def logger_def map_status_eq Let_def)

text \<open>
  Claim C3 as stated fails: a \<open>CANCELED\<close> payment becomes \<open>PENDING\<close> when the gateway
  reports \<open>pending\<close>, and a webhook for it, with the gateway reporting \<open>succeeded\<close>,
  returns it as \<open>SUCCEEDED\<close>.
\<close>

theorem canceled_reopened_counterexample:
  "status (payments (ledger CANCELED) ! 0) = CANCELED \<and>
   status (payments (snd (check_payment (stub_env ''pending'') (ledger CANCELED) (JStr ''pay-1''))) ! 0)
     = PENDING \<and>
   fst (handle_webhook shop_settings (stub_env ''succeeded'') (ledger CANCELED)
          (webhook_for ''pay-1'') None)
     = Inr (Some ((payments (ledger CANCELED) ! 0)\<lparr>status := SUCCEEDED, processed_at := Some 1000\<rparr>))"
  by (simp add: handle_webhook_def check_payment_def grant_subscription_def select_where_def
        ledger_def stub_env_def webhook_for_def dict_get_def logger_def
        map_status_eq SubscriptionTier_call_def Let_def)

text \<open>
  Claim C10. When the fetched status maps to \<open>SUCCEEDED\<close> for a payment that was not
  \<open>SUCCEEDED\<close> and no user row has the payment's \<open>user_id\<close>, \<open>check_payment\<close> raises
  nothing: it returns the row committed as \<open>SUCCEEDED\<close>, and the state differs from the
  one it found only by the gateway call and that row, so the grantor was not called.
\<close>

theorem missing_user_commits_ungranted:
  assumes "distinct (map yookassa_payment_id (payments w))"
    and "i < length (payments w)"
    and "status (payments w ! i) \<noteq> SUCCEEDED"
    and "YooPayment_find_one e (JStr (yookassa_payment_id (payments w ! i))) = Inr r"
    and "map_status (response_status r) = Inr SUCCEEDED"
    and "\<forall>u\<in>set (users w). id_User u \<noteq> user_id (payments w ! i)"
  shows "check_payment e w (JStr (yookassa_payment_id (payments w ! i))) =
     (Inr ((payments w ! i)
             \<lparr>status := SUCCEEDED, processed_at := Some (now e),
              error_message := (case cancellation_details r of None \<Rightarrow> None | Some cd \<Rightarrow> reason cd)\<rparr>),
      w\<lparr>gateway_calls := gateway_calls w @ [FindOne (JStr (yookassa_payment_id (payments w ! i)))],
        payments := (payments w)
          [i := (payments w ! i)
             \<lparr>status := SUCCEEDED, processed_at := Some (now e),
              error_message := (case cancellation_details r of None \<Rightarrow> None | Some cd \<Rightarrow> reason cd)\<rparr>]\<rparr>)"
proof -
  let ?w1 = "w\<lparr>gateway_calls := gateway_calls w @ [FindOne (JStr (yookassa_payment_id (payments w ! i)))]\<rparr>"
  have "select_where (\<lambda>u. id_User u = user_id (payments w ! i)) (users w) = []"
    using assms(6) by (intro select_where_none) simp
  then have "grant_subscription e ?w1 (payments w ! i) = (None, ?w1)"
    by (simp add: grant_subscription_def)
  then show ?thesis
    by (simp add: check_payment_fetch [OF assms(1-5)])
qed

theorem missing_user_commits_ungranted_witness:
  "distinct (map yookassa_payment_id (payments ((ledger PENDING)\<lparr>users := []\<rparr>))) \<and>
   status (payments ((ledger PENDING)\<lparr>users := []\<rparr>) ! 0) \<noteq> SUCCEEDED \<and>
   map_status ''succeeded'' = Inr SUCCEEDED \<and>
   users ((ledger PENDING)\<lparr>users := []\<rparr>) = [] \<and>
   fst (check_payment (stub_env ''succeeded'') ((ledger PENDING)\<lparr>users := []\<rparr>) (JStr ''pay-1''))
     = Inr ((payments (ledger PENDING) ! 0)\<lparr>status := SUCCEEDED, processed_at := Some 1000\<rparr>) \<and>
   grant_calls (snd (check_payment (stub_env ''succeeded'') ((ledger PENDING)\<lparr>users := []\<rparr>)
     (JStr ''pay-1''))) = [] \<and>
   status (payments (snd (check_payment (stub_env ''succeeded'') ((ledger PENDING)\<lparr>users := []\<rparr>)
     (JStr ''pay-1''))) ! 0) = SUCCEEDED"
  using missing_user_commits_ungranted [of "(ledger PENDING)\<lparr>users := []\<rparr>" 0 "stub_env ''succeeded''"
      "\<lparr>response_id = ''pay-1'', response_status = ''succeeded'',
          confirmation = None, cancellation_details = None\<rparr>"]
  by (simp add: ledger_def stub_env_def map_status_eq)

section \<open>The webhook\<close>

text \<open>
  Claim C5. \<open>handle_webhook\<close> raises to its caller on a payload whose \<open>object\<close> entry is
  a non-empty string: \<open>event_object.get\<close> is outside the \<open>try\<close>, and a string has no
  such method.
\<close>

theorem handle_webhook_raises_on_non_dict_object:
  "fst (handle_webhook shop_settings (stub_env ''pending'') (ledger PENDING)
          [(''event'', JStr ''payment.succeeded''), (''object'', JStr ''pay-1'')] None)
     = Inl (AttributeError ''object has no attribute get'')"
  by (simp add: handle_webhook_def dict_get_def Let_def)

section \<open>Signature verification\<close>

text \<open>
  Claim C6, as the code has it. The verdict depends on the configuration, the payload
  and the signature only, not on the state it is computed in. When the secret is
  configured, a signature that verifies no longer verifies once one of its characters is
  replaced by a different one.
\<close>

theorem verify_deterministic_and_flip_rejected:
  assumes "configured (yookassa_webhook_secret cfg)"
  shows "fst (verify_webhook_signature cfg e w payload sg)
           = fst (verify_webhook_signature cfg e w' payload sg) \<and>
    (fst (verify_webhook_signature cfg e w payload sg) \<and> n < length sg \<and> c \<noteq> sg ! n
       \<longrightarrow> \<not> fst (verify_webhook_signature cfg e w' payload (sg[n := c])))"
proof (intro conjI impI)
  show "fst (verify_webhook_signature cfg e w payload sg)
           = fst (verify_webhook_signature cfg e w' payload sg)"
    by (rule verify_webhook_signature_fst)
next
  assume h: "fst (verify_webhook_signature cfg e w payload sg) \<and> n < length sg \<and> c \<noteq> sg ! n"
  then obtain body where b: "json_dumps e payload = Inr body"
      "hmac_sha256_hexdigest e (the (yookassa_webhook_secret cfg)) body = Inr sg"
    using verify_webhook_signature_True [OF assms] by blast
  from h have "(sg[n := c]) ! n \<noteq> sg ! n" by simp
  then have "sg[n := c] \<noteq> sg" by metis
  with assms b show "\<not> fst (verify_webhook_signature cfg e w' payload (sg[n := c]))"
    by (rule verify_webhook_signature_False)
qed

theorem verify_deterministic_and_flip_rejected_witness:
  "configured (yookassa_webhook_secret shop_settings) \<and>
   fst (verify_webhook_signature shop_settings (stub_env ''pending'') (ledger PENDING)
          (webhook_for ''pay-1'') ''ab12'') \<and>
   (0::nat) < length ''ab12'' \<and> CHR ''x'' \<noteq> ''ab12'' ! 0 \<and>
   \<not> fst (verify_webhook_signature shop_settings (stub_env ''pending'') (ledger SUCCEEDED)
          (webhook_for ''pay-1'') (''ab12''[0 := CHR ''x'']))"
  using verify_deterministic_and_flip_rejected [of shop_settings "stub_env ''pending''"
          "ledger PENDING" "webhook_for ''pay-1''" "''ab12''" "ledger SUCCEEDED" 0 "CHR ''x''"]
  by (simp add: verify_webhook_signature_def shop_settings_def stub_env_def compare_digest_def
        is_ascii_def)

text \<open>
  Claim C6 as stated fails for the empty secret: every signature verifies, and so does
  the signature with its first character replaced.
\<close>

theorem bypass_accepts_flipped_signature_counterexample:
  "fst (verify_webhook_signature dev_settings (stub_env ''pending'') (ledger PENDING)
          (webhook_for ''pay-1'') ''ab12'') \<and>
   ''ab12''[0 := CHR ''x''] \<noteq> ''ab12'' \<and>
   fst (verify_webhook_signature dev_settings (stub_env ''pending'') (ledger PENDING)
          (webhook_for ''pay-1'') (''ab12''[0 := CHR ''x'']))"
  by (simp add: verify_webhook_signature_def dev_settings_def shop_settings_def)

text \<open>
  Claim C7. With the secret unset or empty, verification returns \<open>True\<close> for every
  payload and every signature, and the only effect is one warning in the log.
\<close>

theorem unconfigured_secret_bypass:
  assumes "\<not> configured (yookassa_webhook_secret cfg)"
  shows "verify_webhook_signature cfg e w payload sg =
     (True, w\<lparr>log := log w @ [Log WARNING
        ''YooKassa webhook secret not configured, skipping verification'' []]\<rparr>)"
  using assms by (simp add: verify_webhook_signature_def logger_def)

theorem unconfigured_secret_bypass_witness:
  "\<not> configured (yookassa_webhook_secret dev_settings) \<and>
   \<not> configured (yookassa_webhook_secret (shop_settings\<lparr>yookassa_webhook_secret := None\<rparr>)) \<and>
   verify_webhook_signature dev_settings (stub_env ''pending'') (ledger PENDING)
       (webhook_for ''pay-1'') ''forged'' =
     (True, (ledger PENDING)\<lparr>log := [Log WARNING
        ''YooKassa webhook secret not configured, skipping verification'' []]\<rparr>) \<and>
   fst (verify_webhook_signature (shop_settings\<lparr>yookassa_webhook_secret := None\<rparr>)
       (stub_env ''pending'') (ledger PENDING) (webhook_for ''pay-1'') ''forged'')"
  using unconfigured_secret_bypass [of dev_settings "stub_env ''pending''" "ledger PENDING"
          "webhook_for ''pay-1''" "''forged''"]
    unconfigured_secret_bypass [of "shop_settings\<lparr>yookassa_webhook_secret := None\<rparr>"
          "stub_env ''pending''" "ledger PENDING" "webhook_for ''pay-1''" "''forged''"]
  by (simp add: dev_settings_def shop_settings_def ledger_def)

section \<open>Creation\<close>

text \<open>
  Claim C8. For a tier whose price is not positive, \<open>create_payment\<close> raises the
  \<open>ValueError\<close> for an invalid amount and leaves the state as it was: the gateway has
  not been called and no payment has been added.
\<close>

theorem nonpositive_price_rejected:
  assumes "get_tier_price_rubles cfg tier \<le> 0"
  shows "create_payment cfg e w user tier =
     (Inl (ValueError (''Invalid amount for tier '' @ SubscriptionTier_value tier)), w)"
  using assms by (simp add: create_payment_def Let_def)

theorem nonpositive_price_rejected_witness:
  "get_tier_price_rubles shop_settings FREE \<le> 0 \<and>
   get_tier_price_rubles (shop_settings\<lparr>ultra_monthly_price := - 5\<rparr>) ULTRA \<le> 0 \<and>
   create_payment shop_settings (stub_env ''pending'') (ledger PENDING)
       \<lparr>id_User = 7, columns = 0\<rparr> FREE
     = (Inl (ValueError ''Invalid amount for tier free''), ledger PENDING) \<and>
   create_payment (shop_settings\<lparr>ultra_monthly_price := - 5\<rparr>) (stub_env ''pending'')
       (ledger PENDING) \<lparr>id_User = 7, columns = 0\<rparr> ULTRA
     = (Inl (ValueError ''Invalid amount for tier ultra''), ledger PENDING)"
  using nonpositive_price_rejected [of shop_settings FREE "stub_env ''pending''" "ledger PENDING"
          "\<lparr>id_User = 7, columns = 0\<rparr>"]
    nonpositive_price_rejected [of "shop_settings\<lparr>ultra_monthly_price := - 5\<rparr>" ULTRA
          "stub_env ''pending''" "ledger PENDING" "\<lparr>id_User = 7, columns = 0\<rparr>"]
  by (simp add: get_tier_price_rubles_def shop_settings_def)




end
